theory Spec2Isabelle
  imports Complex_Main
begin

section \<open>Numbers\<close>

text \<open>
  The program computes with JavaScript numbers. In this development a number is a
  \<^typ>\<open>real\<close>: the finite values, with exact arithmetic. The rounding of a result to
  53 bits and NaN are outside the model; where the source divides, the development
  shows that the divisor is not zero, so that HOL's total division agrees with the
  quotient the program computes. \<open>Math.min\<close> and \<open>Math.max\<close> are \<^const>\<open>min\<close> and
  \<^const>\<open>max\<close>, comparisons are the order of the reals.

  The scale of a photo is the one value whose divisor is whatever the user types as the
  reference length, so its quotient can leave the range of the doubles. It is a
  \<open>jsnum\<close> (a finite number or \<open>Infinity\<close>), and its division is \<open>double_quotient\<close>,
  which overflows and underflows as a double does.
\<close>

section \<open>The locker catalogue\<close>

text \<open>
  \<^verbatim>\<open>const LOCKER_SIZES = {
    small:  { length: 385, width: 500, height: 110.2, label: "SMALL" },
    medium: { length: 385, width: 500, height: 222.2, label: "MEDIUM" },
    large:  { length: 385, width: 500, height: 301,   label: "LARGE" },
  } as const;\<close>
  The table stands twice in the repository, once in the HTTP handler's file and once in
  the React application; each copy is embedded on its own. The fields \<open>length\<close>,
  \<open>width\<close>, \<open>height\<close> and \<open>label\<close> of an entry carry the prefix \<open>spec_\<close> here.
\<close>

datatype LockerKey = small | medium | large

record LockerSpec =
  spec_length :: real
  spec_width :: real
  spec_height :: real
  spec_label :: string

fun LOCKER_SIZES_api :: "LockerKey \<Rightarrow> LockerSpec" where
  "LOCKER_SIZES_api small =
     \<lparr>spec_length = 385, spec_width = 500, spec_height = 1102 / 10, spec_label = ''SMALL''\<rparr>"
| "LOCKER_SIZES_api medium =
     \<lparr>spec_length = 385, spec_width = 500, spec_height = 2222 / 10, spec_label = ''MEDIUM''\<rparr>"
| "LOCKER_SIZES_api large =
     \<lparr>spec_length = 385, spec_width = 500, spec_height = 301, spec_label = ''LARGE''\<rparr>"

fun LOCKER_SIZES_ui :: "LockerKey \<Rightarrow> LockerSpec" where
  "LOCKER_SIZES_ui small =
     \<lparr>spec_length = 385, spec_width = 500, spec_height = 1102 / 10, spec_label = ''SMALL''\<rparr>"
| "LOCKER_SIZES_ui medium =
     \<lparr>spec_length = 385, spec_width = 500, spec_height = 2222 / 10, spec_label = ''MEDIUM''\<rparr>"
| "LOCKER_SIZES_ui large =
     \<lparr>spec_length = 385, spec_width = 500, spec_height = 301, spec_label = ''LARGE''\<rparr>"

text \<open>\<^verbatim>\<open>const ordered = ["small", "medium", "large"] as const;\<close>\<close>

definition ordered :: "LockerKey list" where
  "ordered = [small, medium, large]"

section \<open>The recommendation of the HTTP handler's file\<close>

text \<open>
  \<open>src/api/measure-parcel.ts\<close>. The result's \<open>reason\<close> is a template string; the
  embedding keeps the template's case and the values it interpolates, not the rendered
  text (\<open>toFixed\<close> is not modelled):
  \<^item> \<open>Footprint_exceeds\<close>: "Parcel footprint exceeds maximum locker dimensions (385x500mm)";
  \<^item> \<open>Fits_in label htMM height\<close>: "Fits in label locker (height: htMM mm <= height mm)";
  \<^item> \<open>Height_exceeds htMM height\<close>: "Height exceeds LARGE locker capacity (htMM mm > height mm)".
  The field \<open>size\<close> of the result is \<open>size_str\<close> here.
\<close>

record ParcelMeasurements =
  length_mm :: real
  width_mm :: real
  height_mm :: real

datatype Reason =
    Footprint_exceeds
  | Fits_in string real real
  | Height_exceeds real real

record LockerRecommendation =
  size_str :: string
  fits :: bool
  dimensions :: ParcelMeasurements
  lockerSpecs :: ParcelMeasurements
  reason :: Reason

text \<open>
  The loop \<^verbatim>\<open>for (const key of ordered) { ... if (htMM <= spec.height) return ... }\<close>
  with the statement after it (the \<open>TOO_TALL\<close> result) as the case of the empty list.
\<close>

fun scan_api :: "LockerKey list \<Rightarrow> real \<Rightarrow> real \<Rightarrow> real \<Rightarrow> LockerRecommendation" where
  "scan_api [] lenMM widMM htMM =
     \<lparr>size_str = ''TOO_TALL'', fits = False,
      dimensions = \<lparr>length_mm = lenMM, width_mm = widMM, height_mm = htMM\<rparr>,
      lockerSpecs = \<lparr>length_mm = spec_length (LOCKER_SIZES_api large),
                     width_mm = spec_width (LOCKER_SIZES_api large),
                     height_mm = spec_height (LOCKER_SIZES_api large)\<rparr>,
      reason = Height_exceeds htMM (spec_height (LOCKER_SIZES_api large))\<rparr>"
| "scan_api (key # rest) lenMM widMM htMM =
     (let spec = LOCKER_SIZES_api key in
      if htMM \<le> spec_height spec then
        \<lparr>size_str = spec_label spec, fits = True,
         dimensions = \<lparr>length_mm = lenMM, width_mm = widMM, height_mm = htMM\<rparr>,
         lockerSpecs = \<lparr>length_mm = spec_length spec, width_mm = spec_width spec,
                        height_mm = spec_height spec\<rparr>,
         reason = Fits_in (spec_label spec) htMM (spec_height spec)\<rparr>
      else scan_api rest lenMM widMM htMM)"

definition recommendLocker_api :: "real \<Rightarrow> real \<Rightarrow> real \<Rightarrow> LockerRecommendation" where
  "recommendLocker_api lenMM widMM htMM =
     (let a = min lenMM widMM;
          b = max lenMM widMM;
          footprintFits = (a \<le> spec_length (LOCKER_SIZES_api small)
                           \<and> b \<le> spec_width (LOCKER_SIZES_api small))
      in if \<not> footprintFits then
           \<lparr>size_str = ''TOO_LARGE'', fits = False,
            dimensions = \<lparr>length_mm = lenMM, width_mm = widMM, height_mm = htMM\<rparr>,
            lockerSpecs = \<lparr>length_mm = spec_length (LOCKER_SIZES_api small),
                           width_mm = spec_width (LOCKER_SIZES_api small),
                           height_mm = spec_height (LOCKER_SIZES_api small)\<rparr>,
            reason = Footprint_exceeds\<rparr>
         else scan_api ordered lenMM widMM htMM)"

section \<open>The recommendation of the React application\<close>

text \<open>
  \<open>recommendLocker\<close> inside \<open>PhotoMeasure\<close>:
  \<^verbatim>\<open>type RecommendResult = { label: string; color: string; sizeKey: LockerKey | null };\<close>
\<close>

record RecommendResult =
  label :: string
  color :: string
  sizeKey :: "LockerKey option"

fun scan_ui :: "LockerKey list \<Rightarrow> real \<Rightarrow> RecommendResult" where
  "scan_ui [] htMM =
     \<lparr>label = ''Height exceeds LARGE'', color = ''#ffb020'', sizeKey = None\<rparr>"
| "scan_ui (key # rest) htMM =
     (let spec = LOCKER_SIZES_ui key in
      if htMM \<le> spec_height spec then
        \<lparr>label = spec_label spec, color = ''#36d399'', sizeKey = Some key\<rparr>
      else scan_ui rest htMM)"

definition recommendLocker_ui :: "real \<Rightarrow> real \<Rightarrow> real \<Rightarrow> RecommendResult" where
  "recommendLocker_ui lenMM widMM htMM =
     (let a = min lenMM widMM;
          b = max lenMM widMM;
          footprintFits = (a \<le> spec_length (LOCKER_SIZES_ui small)
                           \<and> b \<le> spec_width (LOCKER_SIZES_ui small))
      in if \<not> footprintFits then
           \<lparr>label = ''Too large for footprint'', color = ''#ff6b6b'', sizeKey = None\<rparr>
         else scan_ui ordered htMM)"

section \<open>Geometry helpers\<close>

text \<open>
  \<^verbatim>\<open>interface Pt { x: number; y: number }
  function clamp(n: number, min: number, max: number) { return Math.max(min, Math.min(max, n)); }
  function dist(a: Pt, b: Pt) { const dx = a.x - b.x, dy = a.y - b.y; return Math.hypot(dx, dy); }\<close>
  The fields \<open>x\<close> and \<open>y\<close> of a point are \<open>pt_x\<close> and \<open>pt_y\<close>; the parameters
  \<open>min\<close> and \<open>max\<close> of \<open>clamp\<close> are \<open>lo\<close> and \<open>hi\<close>; \<open>dist\<close> is \<open>dist_pt\<close> (HOL has a
  \<open>dist\<close> of its own). \<open>Math.hypot\<close> of two numbers is the square root of the sum of
  their squares.
\<close>

record Pt =
  pt_x :: real
  pt_y :: real

definition clamp :: "real \<Rightarrow> real \<Rightarrow> real \<Rightarrow> real" where
  "clamp n lo hi = max lo (min hi n)"

definition hypot :: "real \<Rightarrow> real \<Rightarrow> real" where
  "hypot dx dy = sqrt (dx\<^sup>2 + dy\<^sup>2)"

definition dist_pt :: "Pt \<Rightarrow> Pt \<Rightarrow> real" where
  "dist_pt a b = (let dx = pt_x a - pt_x b; dy = pt_y a - pt_y b in hypot dx dy)"

text \<open>
  \<open>a || b\<close> on numbers: \<open>a\<close> when it is truthy (not zero), \<open>b\<close> otherwise.
\<close>

definition or_else :: "real \<Rightarrow> real \<Rightarrow> real" where
  "or_else a b = (if a = 0 then b else a)"

section \<open>Scale and measurements of \<open>PhotoMeasure\<close>\<close>

text \<open>
  The derived values of the component, each a function of the state variables it reads.
  \<^verbatim>\<open>const topPxPerMM = useMemo(()=>{
    const dpx = dist(topCalA, topCalB);
    return dpx > 0 && topCalReal > 0 ? (dpx / topCalReal) : 0;
  }, [topCalA, topCalB, topCalReal]);\<close>
  and the same for the side photo.
\<close>

text \<open>
  The quotient \<open>x / y\<close> of two positive doubles is the double nearest to the exact
  quotient \<open>q\<close> (round to nearest, ties to even). The largest double is
  \<open>2^1024 - 2^971\<close>: from \<open>2^1024 - 2^970\<close> on, half way to \<open>2^1024\<close>, \<open>q\<close> rounds to
  \<open>Infinity\<close>. The smallest positive double is \<open>2^-1074\<close>: up to \<open>2^-1075\<close>, half way
  to it, \<open>q\<close> rounds to \<open>0\<close>. Between the two bounds the result is a positive finite
  double; the embedding keeps \<open>q\<close> itself there.
\<close>

datatype jsnum = Num real | Infinity

definition double_overflow :: real where
  "double_overflow = 2 ^ 1024 - 2 ^ 970"

definition double_underflow :: real where
  "double_underflow = 1 / 2 ^ 1075"

definition double_quotient :: "real \<Rightarrow> real \<Rightarrow> jsnum" where
  "double_quotient x y =
     (let q = x / y in
      if double_overflow \<le> q then Infinity
      else if q \<le> double_underflow then Num 0
      else Num q)"

definition topPxPerMM :: "Pt \<Rightarrow> Pt \<Rightarrow> real \<Rightarrow> jsnum" where
  "topPxPerMM topCalA topCalB topCalReal =
     (let dpx = dist_pt topCalA topCalB in
      if dpx > 0 \<and> topCalReal > 0 then double_quotient dpx topCalReal else Num 0)"

definition sidePxPerMM :: "Pt \<Rightarrow> Pt \<Rightarrow> real \<Rightarrow> jsnum" where
  "sidePxPerMM sideCalA sideCalB sideCalReal =
     (let dpx = dist_pt sideCalA sideCalB in
      if dpx > 0 \<and> sideCalReal > 0 then double_quotient dpx sideCalReal else Num 0)"

text \<open>
  \<^verbatim>\<open>type Rect = { x:number; y:number; w:number; h:number };
  const topWmm = topRect.w / (topPxPerMM || 1);
  const topHmm = topRect.h / (topPxPerMM || 1);
  const lengthMM = Math.max(topWmm, topHmm);
  const widthMM  = Math.min(topWmm, topHmm);
  const areaCM2  = (lengthMM * widthMM) / 100;
  const heightMM = dist(sideHeightA, sideHeightB) / (sidePxPerMM || 1);\<close>
  The second argument of each function below is the value of \<open>topPxPerMM\<close>
  (\<open>sidePxPerMM\<close> for \<open>heightMM\<close>) when it is a finite number \<open>Num s\<close>: the real \<open>s\<close>.
  The fields \<open>x\<close>, \<open>y\<close>, \<open>w\<close>, \<open>h\<close> of a rectangle
  carry the prefix \<open>rect_\<close>.
\<close>

record Rect =
  rect_x :: real
  rect_y :: real
  rect_w :: real
  rect_h :: real

definition topWmm :: "Rect \<Rightarrow> real \<Rightarrow> real" where
  "topWmm topRect pxPerMM = rect_w topRect / or_else pxPerMM 1"

definition topHmm :: "Rect \<Rightarrow> real \<Rightarrow> real" where
  "topHmm topRect pxPerMM = rect_h topRect / or_else pxPerMM 1"

definition lengthMM :: "Rect \<Rightarrow> real \<Rightarrow> real" where
  "lengthMM topRect pxPerMM = max (topWmm topRect pxPerMM) (topHmm topRect pxPerMM)"

definition widthMM :: "Rect \<Rightarrow> real \<Rightarrow> real" where
  "widthMM topRect pxPerMM = min (topWmm topRect pxPerMM) (topHmm topRect pxPerMM)"

definition areaCM2 :: "Rect \<Rightarrow> real \<Rightarrow> real" where
  "areaCM2 topRect pxPerMM = (lengthMM topRect pxPerMM * widthMM topRect pxPerMM) / 100"

definition heightMM :: "Pt \<Rightarrow> Pt \<Rightarrow> real \<Rightarrow> real" where
  "heightMM sideHeightA sideHeightB pxPerMM =
     dist_pt sideHeightA sideHeightB / or_else pxPerMM 1"

section \<open>The rectangle editor \<open>DraggableRect\<close>\<close>

text \<open>
  The component's props are the rectangle \<open>rect\<close> and the optional \<open>bounds\<close> (the
  image's size, \<^verbatim>\<open>bounds?: { w:number; h:number }\<close>); its refs are \<open>bodyDown\<close>,
  \<open>dragOrigin\<close> and \<open>rectOrigin\<close>. Every handler hands the new rectangle to
  \<open>onChange\<close>, which the parent stores as \<open>topRect\<close>; a handler below returns that
  rectangle.
  \<^verbatim>\<open>const setCorner = (ix: 0|1, iy: 0|1, p: Pt) => {
    const nx = ix === 0 ? Math.min(p.x, x + w) : Math.max(p.x, x);
    const ny = iy === 0 ? Math.min(p.y, y + h) : Math.max(p.y, y);
    const left = ix === 0 ? nx : x;
    const top  = iy === 0 ? ny : y;
    const right = ix === 0 ? x + w : nx;
    const bottom = iy === 0 ? y + h : ny;
    onChange({ x: left, y: top, w: right - left, h: bottom - top });
  };\<close>
  The corner indices \<open>ix\<close>, \<open>iy\<close> (\<open>0\<close> or \<open>1\<close>) are natural numbers, tested against \<open>0\<close>
  as the source does; the fields \<open>w\<close>, \<open>h\<close> of \<open>bounds\<close> are \<open>img_w\<close>, \<open>img_h\<close>.
\<close>

record ImgSize =
  img_w :: real
  img_h :: real

record DragRefs =
  bodyDown :: bool
  dragOrigin :: Pt
  rectOrigin :: Pt

definition setCorner :: "Rect \<Rightarrow> nat \<Rightarrow> nat \<Rightarrow> Pt \<Rightarrow> Rect" where
  "setCorner rect ix iy p =
     (let x = rect_x rect; y = rect_y rect; w = rect_w rect; h = rect_h rect;
          nx = (if ix = 0 then min (pt_x p) (x + w) else max (pt_x p) x);
          ny = (if iy = 0 then min (pt_y p) (y + h) else max (pt_y p) y);
          left = (if ix = 0 then nx else x);
          top = (if iy = 0 then ny else y);
          right = (if ix = 0 then x + w else nx);
          bottom = (if iy = 0 then y + h else ny)
      in \<lparr>rect_x = left, rect_y = top, rect_w = right - left, rect_h = bottom - top\<rparr>)"

text \<open>
  \<^verbatim>\<open>const onBodyDown = (e) => { ...; bodyDown.current = true; const pt = getLocal(e);
    dragOrigin.current = pt; rectOrigin.current = { x, y }; onDragStart?.(pt); };
  const onBodyMove = (e) => {
    if (!bodyDown.current) return;
    const pt = getLocal(e);
    const dx = pt.x - dragOrigin.current.x;
    const dy = pt.y - dragOrigin.current.y;
    let nx = rectOrigin.current.x + dx;
    let ny = rectOrigin.current.y + dy;
    if (bounds) {
      nx = clamp(nx, 0, Math.max(0, bounds.w - w));
      ny = clamp(ny, 0, Math.max(0, bounds.h - h));
    }
    onChange({ x: nx, y: ny, w, h });
    onDragMove?.({ x: nx + w, y: ny + h });
  };
  const onBodyUp = () => { bodyDown.current = false; onDragEnd?.(); };\<close>
  The argument \<open>pt\<close> is the pointer's position in image space (\<open>getLocal(e)\<close>).
  \<open>onBodyMove\<close> returns \<open>None\<close> when it returns before \<open>onChange\<close>.
\<close>

definition onBodyDown :: "Rect \<Rightarrow> DragRefs \<Rightarrow> Pt \<Rightarrow> DragRefs" where
  "onBodyDown rect refs pt =
     refs\<lparr>bodyDown := True, dragOrigin := pt,
          rectOrigin := \<lparr>pt_x = rect_x rect, pt_y = rect_y rect\<rparr>\<rparr>"

definition onBodyMove :: "Rect \<Rightarrow> ImgSize option \<Rightarrow> DragRefs \<Rightarrow> Pt \<Rightarrow> Rect option" where
  "onBodyMove rect bounds refs pt =
     (if \<not> bodyDown refs then None
      else
        let w = rect_w rect; h = rect_h rect;
            dx = pt_x pt - pt_x (dragOrigin refs);
            dy = pt_y pt - pt_y (dragOrigin refs);
            nx = pt_x (rectOrigin refs) + dx;
            ny = pt_y (rectOrigin refs) + dy;
            nx' = (case bounds of None \<Rightarrow> nx
                   | Some b \<Rightarrow> clamp nx 0 (max 0 (img_w b - w)));
            ny' = (case bounds of None \<Rightarrow> ny
                   | Some b \<Rightarrow> clamp ny 0 (max 0 (img_h b - h)))
        in Some \<lparr>rect_x = nx', rect_y = ny', rect_w = w, rect_h = h\<rparr>)"

definition onBodyUp :: "DragRefs \<Rightarrow> DragRefs" where
  "onBodyUp refs = refs\<lparr>bodyDown := False\<rparr>"

section \<open>The handler of \<open>POST /measure-parcel\<close>\<close>

text \<open>
  The request's body is a JavaScript value as the platform parsed it. An object is the
  list of its own properties, looked up by name. Reading a property of \<open>undefined\<close> or
  \<open>null\<close> throws a \<open>TypeError\<close>; a primitive or an array has none of the properties
  the handler reads, so the read gives \<open>undefined\<close>.
\<close>

datatype jsval =
    JUndefined
  | JNull
  | JBool bool
  | JNum real
  | JStr string
  | JArr "jsval list"
  | JObj "(string \<times> jsval) list"

datatype js_error = TypeError

fun get_prop :: "jsval \<Rightarrow> string \<Rightarrow> js_error + jsval" where
  "get_prop JUndefined k = Inl TypeError"
| "get_prop JNull k = Inl TypeError"
| "get_prop (JObj kvs) k = Inr (case map_of kvs k of None \<Rightarrow> JUndefined | Some v \<Rightarrow> v)"
| "get_prop v k = Inr JUndefined"

fun truthy :: "jsval \<Rightarrow> bool" where
  "truthy JUndefined = False"
| "truthy JNull = False"
| "truthy (JBool b) = b"
| "truthy (JNum r) = (r \<noteq> 0)"
| "truthy (JStr s) = (s \<noteq> [])"
| "truthy (JArr vs) = True"
| "truthy (JObj kvs) = True"

text \<open>\<open>typeof v\<close>, as far as the handler asks: is it \<open>'number'\<close>?\<close>

fun typeof_number :: "jsval \<Rightarrow> bool" where
  "typeof_number (JNum r) = True"
| "typeof_number v = False"

fun num_of :: "jsval \<Rightarrow> real" where
  "num_of (JNum r) = r"
| "num_of v = 0"

text \<open>
  The request (\<open>req.method\<close>, \<open>req.body\<close>) and the response: the status, the headers
  set and the payload. \<open>res.status(200).end()\<close> sends no payload; the payload of the
  405 answer is \<open>{ error }\<close>, of the 400 and 500 answers \<open>{ success: false, error }\<close>, of
  the 200 answer \<open>{ success: true, lockerRecommendation, timestamp }\<close>. The clock
  (\<open>new Date().toISOString()\<close>) is the parameter \<open>now\<close>; \<open>console.log\<close> and
  \<open>console.error\<close> write to the log only and are left out.
\<close>

record VercelRequest =
  req_method :: string
  req_body :: jsval

datatype Payload =
    No_payload
  | Error_only string
  | Failure string
  | Success LockerRecommendation string

record VercelResponse =
  headers :: "(string \<times> string) list"
  status :: nat
  payload :: Payload

definition cors_headers :: "(string \<times> string) list" where
  "cors_headers =
     [(''Access-Control-Allow-Origin'', ''*''),
      (''Access-Control-Allow-Methods'', ''POST, OPTIONS''),
      (''Access-Control-Allow-Headers'', ''Content-Type'')]"

text \<open>
  The body of the \<open>try\<close> block: \<open>Inl\<close> is an exception thrown inside it.
  \<^verbatim>\<open>const { measurements, metadata } = req.body;
  if (!measurements ||
      typeof measurements.length_mm !== 'number' ||
      typeof measurements.width_mm !== 'number' ||
      typeof measurements.height_mm !== 'number') { return res.status(400).json({...}); }
  const { length_mm, width_mm, height_mm } = measurements;
  if (length_mm <= 0 || width_mm <= 0 || height_mm <= 0) { return res.status(400).json({...}); }
  const recommendation = recommendLocker(length_mm, width_mm, height_mm);
  return res.status(200).json({ success: true, lockerRecommendation: recommendation, timestamp: ... });\<close>
\<close>

definition handler_try :: "VercelRequest \<Rightarrow> string \<Rightarrow> js_error + VercelResponse" where
  "handler_try req now =
     (case get_prop (req_body req) ''measurements'' of
        Inl e \<Rightarrow> Inl e
      | Inr measurements \<Rightarrow>
          if \<not> truthy measurements then
            Inr \<lparr>headers = cors_headers, status = 400,
                 payload = Failure ''Invalid measurements. Expected: { length_mm: number, width_mm: number, height_mm: number }''\<rparr>
          else
            (case get_prop measurements ''length_mm'' of
               Inl e \<Rightarrow> Inl e
             | Inr l \<Rightarrow>
            (case get_prop measurements ''width_mm'' of
               Inl e \<Rightarrow> Inl e
             | Inr w \<Rightarrow>
            (case get_prop measurements ''height_mm'' of
               Inl e \<Rightarrow> Inl e
             | Inr h \<Rightarrow>
                if \<not> typeof_number l \<or> \<not> typeof_number w \<or> \<not> typeof_number h then
                  Inr \<lparr>headers = cors_headers, status = 400,
                       payload = Failure ''Invalid measurements. Expected: { length_mm: number, width_mm: number, height_mm: number }''\<rparr>
                else if num_of l \<le> 0 \<or> num_of w \<le> 0 \<or> num_of h \<le> 0 then
                  Inr \<lparr>headers = cors_headers, status = 400,
                       payload = Failure ''All dimensions must be positive numbers''\<rparr>
                else
                  Inr \<lparr>headers = cors_headers, status = 200,
                       payload = Success (recommendLocker_api (num_of l) (num_of w) (num_of h)) now\<rparr>))))"

text \<open>
  \<^verbatim>\<open>if (req.method === 'OPTIONS') { return res.status(200).end(); }
  if (req.method !== 'POST') { return res.status(405).json({ error: 'Method not allowed' }); }
  try { ... } catch (error) { return res.status(500).json({ success: false, error: 'Internal server error' }); }\<close>
\<close>

definition handler :: "VercelRequest \<Rightarrow> string \<Rightarrow> VercelResponse" where
  "handler req now =
     (if req_method req = ''OPTIONS'' then
        \<lparr>headers = cors_headers, status = 200, payload = No_payload\<rparr>
      else if req_method req \<noteq> ''POST'' then
        \<lparr>headers = cors_headers, status = 405, payload = Error_only ''Method not allowed''\<rparr>
      else
        (case handler_try req now of
           Inr res \<Rightarrow> res
         | Inl e \<Rightarrow>
             \<lparr>headers = cors_headers, status = 500,
              payload = Failure ''Internal server error''\<rparr>))"

section \<open>Properties stated about the program\<close>

text \<open>
  The predicates the theorems below are stated with. \<open>within_image\<close> is the invariant of
  a rectangle in an image of size \<open>b\<close>: non-negative extents, inside
  \<open>[0, img_w b] \<times> [0, img_h b]\<close>. \<open>body_position_claimed\<close> is the range of a rectangle's
  position after a body drag: \<open>x\<close> in \<open>[0, img_w b - w]\<close>, \<open>y\<close> in \<open>[0, img_h b - h]\<close>.
\<close>

definition within_image :: "ImgSize \<Rightarrow> Rect \<Rightarrow> bool" where
  "within_image b r =
     (0 \<le> rect_w r \<and> 0 \<le> rect_h r
      \<and> 0 \<le> rect_x r \<and> rect_x r + rect_w r \<le> img_w b
      \<and> 0 \<le> rect_y r \<and> rect_y r + rect_h r \<le> img_h b)"

definition body_position_claimed :: "ImgSize \<Rightarrow> Rect \<Rightarrow> bool" where
  "body_position_claimed b r =
     (0 \<le> rect_x r \<and> rect_x r \<le> img_w b - rect_w r
      \<and> 0 \<le> rect_y r \<and> rect_y r \<le> img_h b - rect_h r)"


text \<open>
  \<open>field_of body k\<close> is the value of \<open>body.measurements.k\<close>, \<open>undefined\<close> when there is
  no such property. A request's triple is valid when its three fields are numbers and
  strictly positive.
\<close>

definition field_of :: "jsval \<Rightarrow> string \<Rightarrow> jsval" where
  "field_of body k =
     (case get_prop body ''measurements'' of
        Inl e \<Rightarrow> JUndefined
      | Inr m \<Rightarrow> (case get_prop m k of Inl e \<Rightarrow> JUndefined | Inr v \<Rightarrow> v))"

definition positive_number :: "jsval \<Rightarrow> bool" where
  "positive_number v = (typeof_number v \<and> 0 < num_of v)"

definition valid_triple :: "jsval \<Rightarrow> bool" where
  "valid_triple body =
     (positive_number (field_of body ''length_mm'')
      \<and> positive_number (field_of body ''width_mm'')
      \<and> positive_number (field_of body ''height_mm''))"

section \<open>The locker recommendation\<close>

text \<open>
  The loop returns at the first key of the list whose height limit is at least the
  height, and falls through to \<open>TOO_TALL\<close> when there is none.
\<close>

lemma scan_api_first:
  "size_str (scan_api ks l w h) =
     (case find (\<lambda>k. h \<le> spec_height (LOCKER_SIZES_api k)) ks of
        None \<Rightarrow> ''TOO_TALL'' | Some k \<Rightarrow> spec_label (LOCKER_SIZES_api k))"
  by (induction ks) (simp_all add: Let_def)

lemma scan_api_fits:
  "fits (scan_api ks l w h) = (find (\<lambda>k. h \<le> spec_height (LOCKER_SIZES_api k)) ks \<noteq> None)"
  by (induction ks) (simp_all add: Let_def)

lemma scan_ui_first:
  "sizeKey (scan_ui ks h) = find (\<lambda>k. h \<le> spec_height (LOCKER_SIZES_ui k)) ks"
  by (induction ks) (simp_all add: Let_def)

text \<open>
  The recommendation evaluated at boundary cases. A footprint of 400 by 180 passes the
  check (180 \<open>\<le>\<close> 385 and 400 \<open>\<le>\<close> 500); 400 by 390 and 180 by 501 do not.
\<close>

lemma recommendLocker_api_examples:
  "size_str (recommendLocker_api 250 180 (958 / 10)) = ''SMALL''"
  "fits (recommendLocker_api 250 180 (958 / 10))"
  "size_str (recommendLocker_api 250 180 (1102 / 10)) = ''SMALL''"
  "size_str (recommendLocker_api 250 180 (1103 / 10)) = ''MEDIUM''"
  "size_str (recommendLocker_api 250 180 301) = ''LARGE''"
  "size_str (recommendLocker_api 250 180 (3011 / 10)) = ''TOO_TALL''"
  "\<not> fits (recommendLocker_api 250 180 (3011 / 10))"
  "size_str (recommendLocker_api 400 180 50) = ''SMALL''"
  "size_str (recommendLocker_api 400 390 50) = ''TOO_LARGE''"
  "\<not> fits (recommendLocker_api 400 390 50)"
  "size_str (recommendLocker_api 180 501 50) = ''TOO_LARGE''"
  by (simp_all add: recommendLocker_api_def ordered_def Let_def)

text \<open>
  Claim C1. For every triple, \<open>recommendLocker\<close> answers \<open>TOO_LARGE\<close> with
  \<open>fits = false\<close> when the footprint check fails (\<open>min \<le> 385\<close> and \<open>max \<le> 500\<close> do not
  both hold), whatever the height; otherwise the first of \<open>SMALL\<close>, \<open>MEDIUM\<close>, \<open>LARGE\<close>
  whose height limit (110.2, 222.2, 301) is at least the height, with \<open>fits = true\<close>,
  every comparison inclusive; and \<open>TOO_TALL\<close> with \<open>fits = false\<close> when the height
  exceeds 301.
\<close>

theorem recommendLocker_classifies:
  "size_str (recommendLocker_api lenMM widMM htMM) =
     (if \<not> (min lenMM widMM \<le> 385 \<and> max lenMM widMM \<le> 500) then ''TOO_LARGE''
      else if htMM \<le> 1102 / 10 then ''SMALL''
      else if htMM \<le> 2222 / 10 then ''MEDIUM''
      else if htMM \<le> 301 then ''LARGE''
      else ''TOO_TALL'')
   \<and> fits (recommendLocker_api lenMM widMM htMM) =
       (min lenMM widMM \<le> 385 \<and> max lenMM widMM \<le> 500 \<and> htMM \<le> 301)
   \<and> sizeKey (recommendLocker_ui lenMM widMM htMM) =
     (if \<not> (min lenMM widMM \<le> 385 \<and> max lenMM widMM \<le> 500) then None
      else if htMM \<le> 1102 / 10 then Some small
      else if htMM \<le> 2222 / 10 then Some medium
      else if htMM \<le> 301 then Some large
      else None)"
  by (auto simp add: recommendLocker_api_def recommendLocker_ui_def ordered_def Let_def)

text \<open>
  Claim C9. \<open>recommendLocker\<close> is symmetric in its first two arguments: swapping
  length and width changes neither the size, nor \<open>fits\<close>, nor the locker's
  specification, nor the reason (the result's \<open>dimensions\<close> echo the arguments in the
  order given); and \<open>recommendLocker(500, 385, 50)\<close> is \<open>SMALL\<close>.
\<close>

theorem recommendLocker_symmetric:
  "size_str (recommendLocker_api lenMM widMM htMM)
     = size_str (recommendLocker_api widMM lenMM htMM)
   \<and> fits (recommendLocker_api lenMM widMM htMM)
     = fits (recommendLocker_api widMM lenMM htMM)
   \<and> lockerSpecs (recommendLocker_api lenMM widMM htMM)
     = lockerSpecs (recommendLocker_api widMM lenMM htMM)
   \<and> reason (recommendLocker_api lenMM widMM htMM)
     = reason (recommendLocker_api widMM lenMM htMM)
   \<and> recommendLocker_ui lenMM widMM htMM
     = recommendLocker_ui widMM lenMM htMM
   \<and> size_str (recommendLocker_api 500 385 50) = ''SMALL''
   \<and> fits (recommendLocker_api 500 385 50)
   \<and> label (recommendLocker_ui 500 385 50) = ''SMALL''"
  by (simp add: recommendLocker_api_def recommendLocker_ui_def ordered_def Let_def
      min.commute max.commute)

text \<open>
  Claim C10. The two copies of \<open>recommendLocker\<close> classify every triple alike: the
  handler's copy answers \<open>TOO_LARGE\<close> exactly when the application's copy answers
  "Too large for footprint", a tier label exactly when the application's copy answers
  the same tier, and \<open>TOO_TALL\<close> exactly when the application's copy answers
  "Height exceeds LARGE".
\<close>

theorem recommendLocker_copies_agree:
  "(size_str (recommendLocker_api lenMM widMM htMM) = ''TOO_LARGE'')
      = (label (recommendLocker_ui lenMM widMM htMM) = ''Too large for footprint'')
   \<and> (size_str (recommendLocker_api lenMM widMM htMM) = ''SMALL'')
      = (label (recommendLocker_ui lenMM widMM htMM) = ''SMALL'')
   \<and> (size_str (recommendLocker_api lenMM widMM htMM) = ''MEDIUM'')
      = (label (recommendLocker_ui lenMM widMM htMM) = ''MEDIUM'')
   \<and> (size_str (recommendLocker_api lenMM widMM htMM) = ''LARGE'')
      = (label (recommendLocker_ui lenMM widMM htMM) = ''LARGE'')
   \<and> (size_str (recommendLocker_api lenMM widMM htMM) = ''TOO_TALL'')
      = (label (recommendLocker_ui lenMM widMM htMM) = ''Height exceeds LARGE'')
   \<and> fits (recommendLocker_api lenMM widMM htMM)
      = (sizeKey (recommendLocker_ui lenMM widMM htMM) \<noteq> None)"
  by (simp add: recommendLocker_api_def recommendLocker_ui_def ordered_def Let_def)

section \<open>Scale and measurements\<close>



lemma dist_pt_examples:
  "dist_pt \<lparr>pt_x = 80, pt_y = 80\<rparr> \<lparr>pt_x = 260, pt_y = 80\<rparr> = 180"
  "dist_pt \<lparr>pt_x = 0, pt_y = 0\<rparr> \<lparr>pt_x = 3, pt_y = 4\<rparr> = 5"
  by (simp_all add: dist_pt_def hypot_def Let_def real_sqrt_unique)

text \<open>
  The divisions of the source never divide by zero: \<open>topPxPerMM\<close> divides by the
  reference length only where it is positive, and the measurements divide by
  \<open>pxPerMM || 1\<close>.
\<close>

lemma or_else_one_nonzero: "or_else pxPerMM 1 \<noteq> 0"
  by (simp add: or_else_def)

lemma double_range: "0 < double_underflow" "double_underflow < double_overflow"
  by (simp_all add: double_underflow_def double_overflow_def)

lemma topPxPerMM_example:
  "topPxPerMM \<lparr>pt_x = 80, pt_y = 80\<rparr> \<lparr>pt_x = 260, pt_y = 80\<rparr> 90 = Num 2"
  by (simp add: topPxPerMM_def dist_pt_examples double_quotient_def
      double_underflow_def double_overflow_def)



text \<open>
  Claim C5. For every rectangle and every \<open>pxPerMM > 0\<close>, the top face has
  \<open>lengthMM \<ge> widthMM\<close> and \<open>areaCM2 = (lengthMM * widthMM) / 100\<close>; the length is the
  larger and the width the smaller of the rectangle's two extents over the scale, so
  exchanging the rectangle's \<open>w\<close> and \<open>h\<close> changes neither.
\<close>

theorem top_face_sorted:
  assumes "0 < pxPerMM"
  shows "widthMM r pxPerMM \<le> lengthMM r pxPerMM
    \<and> areaCM2 r pxPerMM = (lengthMM r pxPerMM * widthMM r pxPerMM) / 100
    \<and> lengthMM r pxPerMM = max (rect_w r) (rect_h r) / pxPerMM
    \<and> widthMM r pxPerMM = min (rect_w r) (rect_h r) / pxPerMM
    \<and> lengthMM (r\<lparr>rect_w := rect_h r, rect_h := rect_w r\<rparr>) pxPerMM = lengthMM r pxPerMM
    \<and> widthMM (r\<lparr>rect_w := rect_h r, rect_h := rect_w r\<rparr>) pxPerMM = widthMM r pxPerMM"
  using assms
  by (simp add: widthMM_def lengthMM_def areaCM2_def topWmm_def topHmm_def or_else_def
      max_def min_def divide_le_cancel)

theorem top_face_sorted_witness:
  "(0::real) < 2
   \<and> widthMM \<lparr>rect_x = 120, rect_y = 120, rect_w = 160, rect_h = 220\<rparr> 2
       \<le> lengthMM \<lparr>rect_x = 120, rect_y = 120, rect_w = 160, rect_h = 220\<rparr> 2
   \<and> lengthMM \<lparr>rect_x = 120, rect_y = 120, rect_w = 160, rect_h = 220\<rparr> 2 = 110
   \<and> widthMM \<lparr>rect_x = 120, rect_y = 120, rect_w = 160, rect_h = 220\<rparr> 2 = 80"
  using top_face_sorted [of 2 "\<lparr>rect_x = 120, rect_y = 120, rect_w = 160, rect_h = 220\<rparr>"]
  by simp

text \<open>
  Claim C6. Top-face and height extraction have no error path: the divisor
  \<open>pxPerMM || 1\<close> is never zero, and when the scale is \<open>0\<close> (not calibrated, as for a
  calibration line whose ends coincide, whose scale is the number \<open>0\<close>) the extents
  are divided by \<open>1\<close>: the results are the raw pixel counts, for every rectangle and
  every measurement line.
\<close>

theorem uncalibrated_fallback:
  "or_else pxPerMM 1 \<noteq> 0
   \<and> or_else 0 1 = 1
   \<and> topWmm r 0 = rect_w r
   \<and> topHmm r 0 = rect_h r
   \<and> lengthMM r 0 = max (rect_w r) (rect_h r)
   \<and> widthMM r 0 = min (rect_w r) (rect_h r)
   \<and> heightMM a b 0 = dist_pt a b
   \<and> topPxPerMM c c referenceLengthMM = Num 0
   \<and> sidePxPerMM c c referenceLengthMM = Num 0
   \<and> (case topPxPerMM c c referenceLengthMM of
         Num s \<Rightarrow> topWmm r s = rect_w r \<and> topHmm r s = rect_h r
       | Infinity \<Rightarrow> False)
   \<and> (case sidePxPerMM c c referenceLengthMM of
         Num s \<Rightarrow> heightMM a b s = dist_pt a b
       | Infinity \<Rightarrow> False)"
  by (simp add: or_else_def topWmm_def topHmm_def lengthMM_def widthMM_def heightMM_def
      topPxPerMM_def sidePxPerMM_def Let_def dist_pt_def hypot_def)

section \<open>The rectangle editor\<close>

lemma clamp_range: "lo \<le> hi \<Longrightarrow> lo \<le> clamp n lo hi \<and> clamp n lo hi \<le> hi"
  by (simp add: clamp_def)

text \<open>
  Claim C7. For every rectangle and every position \<open>p\<close> of the dragged corner, also
  past the opposite corner, \<open>setCorner\<close> produces a rectangle with \<open>w \<ge> 0\<close> and
  \<open>h \<ge> 0\<close>. The opposite corner stays where it was, and the dragged corner goes to
  \<open>p\<close>, held at the opposite corner by \<open>min\<close> or \<open>max\<close> where \<open>p\<close> lies beyond it.
  (Nothing is assumed of the rectangle: the extents before the drag may have any sign.)
\<close>

theorem setCorner_nonneg:
  "0 \<le> rect_w (setCorner rect ix iy p)
   \<and> 0 \<le> rect_h (setCorner rect ix iy p)
   \<and> (if ix = 0
       then rect_x (setCorner rect ix iy p) = min (pt_x p) (rect_x rect + rect_w rect)
          \<and> rect_x (setCorner rect ix iy p) + rect_w (setCorner rect ix iy p)
              = rect_x rect + rect_w rect
       else rect_x (setCorner rect ix iy p) = rect_x rect
          \<and> rect_x (setCorner rect ix iy p) + rect_w (setCorner rect ix iy p)
              = max (pt_x p) (rect_x rect))
   \<and> (if iy = 0
       then rect_y (setCorner rect ix iy p) = min (pt_y p) (rect_y rect + rect_h rect)
          \<and> rect_y (setCorner rect ix iy p) + rect_h (setCorner rect ix iy p)
              = rect_y rect + rect_h rect
       else rect_y (setCorner rect ix iy p) = rect_y rect
          \<and> rect_y (setCorner rect ix iy p) + rect_h (setCorner rect ix iy p)
              = max (pt_y p) (rect_y rect))"
  by (simp add: setCorner_def Let_def)

text \<open>
  A corner dragged past the opposite corner: the rectangle collapses to width and
  height \<open>0\<close> at the opposite corner.
\<close>

lemma setCorner_past_opposite:
  "setCorner \<lparr>rect_x = 120, rect_y = 120, rect_w = 220, rect_h = 160\<rparr> 0 0
      \<lparr>pt_x = 700, pt_y = 400\<rparr>
     = \<lparr>rect_x = 340, rect_y = 280, rect_w = 0, rect_h = 0\<rparr>"
  by (simp add: setCorner_def Let_def)

text \<open>
  Claim C2, at an input where the program departs from it. The invariant says that
  after any edit the rectangle lies within the image, clamped. \<open>setCorner\<close> never reads
  \<open>bounds\<close>: with the default rectangle in an image of 800 by 500, dragging the top-left
  corner to \<open>(-50, -50)\<close> gives a rectangle that starts left of and above the image.
\<close>

theorem setCorner_leaves_image:
  "setCorner \<lparr>rect_x = 120, rect_y = 120, rect_w = 220, rect_h = 160\<rparr> 0 0
      \<lparr>pt_x = - 50, pt_y = - 50\<rparr>
     = \<lparr>rect_x = - 50, rect_y = - 50, rect_w = 390, rect_h = 330\<rparr>
   \<and> within_image \<lparr>img_w = 800, img_h = 500\<rparr>
        \<lparr>rect_x = 120, rect_y = 120, rect_w = 220, rect_h = 160\<rparr>
   \<and> \<not> within_image \<lparr>img_w = 800, img_h = 500\<rparr>
        (setCorner \<lparr>rect_x = 120, rect_y = 120, rect_w = 220, rect_h = 160\<rparr> 0 0
           \<lparr>pt_x = - 50, pt_y = - 50\<rparr>)"
  by (simp add: setCorner_def Let_def within_image_def)

text \<open>
  The body drag, for its part, keeps the invariant of a rectangle that fits into the
  image.
\<close>

lemma body_drag_within_image:
  assumes "bodyDown refs" and "0 \<le> rect_w rect" and "rect_w rect \<le> img_w b"
    and "0 \<le> rect_h rect" and "rect_h rect \<le> img_h b"
  shows "\<exists>r. onBodyMove rect (Some b) refs pt = Some r \<and> within_image b r"
  using assms by (auto simp add: onBodyMove_def Let_def clamp_def within_image_def max_def min_def)

text \<open>
  Claim C8, as amended. For every pointer position of a body drag in progress, with
  \<open>bounds\<close> given, the update leaves \<open>w\<close> and \<open>h\<close> unchanged and clamps the position
  component-wise: \<open>x\<close> into \<open>[0, max(0, imageWidth - w)]\<close> and \<open>y\<close> into
  \<open>[0, max(0, imageHeight - h)]\<close>. These are the intervals \<open>[0, imageWidth - w]\<close> and
  \<open>[0, imageHeight - h]\<close> when the rectangle is no wider and no higher than the image.
\<close>

theorem body_drag_clamped:
  assumes "bodyDown refs"
  shows "\<exists>r. onBodyMove rect (Some b) refs pt = Some r
     \<and> rect_w r = rect_w rect \<and> rect_h r = rect_h rect
     \<and> rect_x r = clamp (pt_x (rectOrigin refs) + (pt_x pt - pt_x (dragOrigin refs))) 0
                    (max 0 (img_w b - rect_w rect))
     \<and> rect_y r = clamp (pt_y (rectOrigin refs) + (pt_y pt - pt_y (dragOrigin refs))) 0
                    (max 0 (img_h b - rect_h rect))
     \<and> 0 \<le> rect_x r \<and> rect_x r \<le> max 0 (img_w b - rect_w rect)
     \<and> 0 \<le> rect_y r \<and> rect_y r \<le> max 0 (img_h b - rect_h rect)
     \<and> (rect_w rect \<le> img_w b \<and> rect_h rect \<le> img_h b \<longrightarrow> body_position_claimed b r)"
  using assms by (simp add: onBodyMove_def Let_def clamp_def body_position_claimed_def)

text \<open>
  The theorem at a drag that would move the default rectangle off the image to the
  right and below: the position is clamped to \<open>(580, 340)\<close>.
\<close>

theorem body_drag_clamped_witness:
  "bodyDown (onBodyDown \<lparr>rect_x = 120, rect_y = 120, rect_w = 220, rect_h = 160\<rparr>
       \<lparr>bodyDown = False, dragOrigin = \<lparr>pt_x = 0, pt_y = 0\<rparr>,
        rectOrigin = \<lparr>pt_x = 0, pt_y = 0\<rparr>\<rparr> \<lparr>pt_x = 200, pt_y = 200\<rparr>)
   \<and> onBodyMove \<lparr>rect_x = 120, rect_y = 120, rect_w = 220, rect_h = 160\<rparr>
       (Some \<lparr>img_w = 800, img_h = 500\<rparr>)
       (onBodyDown \<lparr>rect_x = 120, rect_y = 120, rect_w = 220, rect_h = 160\<rparr>
          \<lparr>bodyDown = False, dragOrigin = \<lparr>pt_x = 0, pt_y = 0\<rparr>,
           rectOrigin = \<lparr>pt_x = 0, pt_y = 0\<rparr>\<rparr> \<lparr>pt_x = 200, pt_y = 200\<rparr>)
       \<lparr>pt_x = 2000, pt_y = 2000\<rparr>
     = Some \<lparr>rect_x = 580, rect_y = 340, rect_w = 220, rect_h = 160\<rparr>
   \<and> body_position_claimed \<lparr>img_w = 800, img_h = 500\<rparr>
        \<lparr>rect_x = 580, rect_y = 340, rect_w = 220, rect_h = 160\<rparr>"
  using body_drag_clamped [of "onBodyDown \<lparr>rect_x = 120, rect_y = 120, rect_w = 220, rect_h = 160\<rparr>
       \<lparr>bodyDown = False, dragOrigin = \<lparr>pt_x = 0, pt_y = 0\<rparr>,
        rectOrigin = \<lparr>pt_x = 0, pt_y = 0\<rparr>\<rparr> \<lparr>pt_x = 200, pt_y = 200\<rparr>"
      "\<lparr>rect_x = 120, rect_y = 120, rect_w = 220, rect_h = 160\<rparr>"
      "\<lparr>img_w = 800, img_h = 500\<rparr>" "\<lparr>pt_x = 2000, pt_y = 2000\<rparr>"]
  by (auto simp add: onBodyDown_def clamp_def body_position_claimed_def)

text \<open>
  The claim as it was stated fails for a rectangle wider than the image. Such a
  rectangle is reached by a corner drag (\<open>wide_rect_reachable\<close>); a body drag then puts
  it at \<open>x = 0\<close>, and \<open>0\<close> is not in \<open>[0, 800 - 880]\<close>.
\<close>

lemma wide_rect_reachable:
  "setCorner \<lparr>rect_x = 120, rect_y = 120, rect_w = 220, rect_h = 160\<rparr> 1 1
      \<lparr>pt_x = 1000, pt_y = 300\<rparr>
     = \<lparr>rect_x = 120, rect_y = 120, rect_w = 880, rect_h = 180\<rparr>"
  by (simp add: setCorner_def Let_def)

theorem body_drag_counterexample:
  "onBodyMove \<lparr>rect_x = 120, rect_y = 120, rect_w = 880, rect_h = 180\<rparr>
      (Some \<lparr>img_w = 800, img_h = 500\<rparr>)
      (onBodyDown \<lparr>rect_x = 120, rect_y = 120, rect_w = 880, rect_h = 180\<rparr>
         \<lparr>bodyDown = False, dragOrigin = \<lparr>pt_x = 0, pt_y = 0\<rparr>,
          rectOrigin = \<lparr>pt_x = 0, pt_y = 0\<rparr>\<rparr> \<lparr>pt_x = 200, pt_y = 200\<rparr>)
      \<lparr>pt_x = 210, pt_y = 210\<rparr>
     = Some \<lparr>rect_x = 0, rect_y = 130, rect_w = 880, rect_h = 180\<rparr>
   \<and> \<not> body_position_claimed \<lparr>img_w = 800, img_h = 500\<rparr>
        \<lparr>rect_x = 0, rect_y = 130, rect_w = 880, rect_h = 180\<rparr>"
  by (simp add: onBodyMove_def onBodyDown_def Let_def clamp_def body_position_claimed_def)

section \<open>The handler\<close>

lemma get_prop_truthy: "truthy m \<Longrightarrow> \<exists>v. get_prop m k = Inr v"
  by (cases m) simp_all

lemma get_prop_falsy:
  "\<not> truthy m \<Longrightarrow> (case get_prop m k of Inl e \<Rightarrow> JUndefined | Inr v \<Rightarrow> v) = JUndefined"
  by (cases m) simp_all

lemma get_prop_body: "b \<noteq> JUndefined \<Longrightarrow> b \<noteq> JNull \<Longrightarrow> \<exists>v. get_prop b k = Inr v"
  by (cases b) simp_all

lemma handler_try_invalid:
  assumes "req_body req \<noteq> JUndefined" and "req_body req \<noteq> JNull"
    and "\<not> valid_triple (req_body req)"
  shows "\<exists>msg. handler_try req now =
           Inr \<lparr>headers = cors_headers, status = 400, payload = Failure msg\<rparr>"
proof -
  obtain m where m: "get_prop (req_body req) ''measurements'' = Inr m"
    using get_prop_body [OF assms(1,2)] by blast
  show ?thesis
  proof (cases "truthy m")
    case False
    then show ?thesis by (simp add: handler_try_def m)
  next
    case True
    obtain l w h where f: "get_prop m ''length_mm'' = Inr l"
        "get_prop m ''width_mm'' = Inr w" "get_prop m ''height_mm'' = Inr h"
      using get_prop_truthy [OF True] by blast
    have "\<not> (positive_number l \<and> positive_number w \<and> positive_number h)"
      using assms(3) by (simp add: valid_triple_def field_of_def m f)
    then show ?thesis
      using True by (auto simp add: handler_try_def m f positive_number_def)
  qed
qed

lemma handler_try_valid:
  assumes "valid_triple (req_body req)"
  shows "handler_try req now = Inr \<lparr>headers = cors_headers, status = 200,
     payload = Success (recommendLocker_api (num_of (field_of (req_body req) ''length_mm''))
        (num_of (field_of (req_body req) ''width_mm''))
        (num_of (field_of (req_body req) ''height_mm''))) now\<rparr>"
proof -
  have pl: "positive_number (field_of (req_body req) ''length_mm'')"
    using assms by (simp add: valid_triple_def)
  obtain m where m: "get_prop (req_body req) ''measurements'' = Inr m"
    using pl by (cases "get_prop (req_body req) ''measurements''")
      (simp_all add: field_of_def positive_number_def)
  have t: "truthy m"
  proof (rule ccontr)
    assume "\<not> truthy m"
    then have "field_of (req_body req) ''length_mm'' = JUndefined"
      by (simp add: field_of_def m get_prop_falsy)
    then show False
      using pl by (simp add: positive_number_def)
  qed
  obtain l w h where f: "get_prop m ''length_mm'' = Inr l"
      "get_prop m ''width_mm'' = Inr w" "get_prop m ''height_mm'' = Inr h"
    using get_prop_truthy [OF t] by blast
  have "positive_number l \<and> positive_number w \<and> positive_number h"
    using assms by (simp add: valid_triple_def field_of_def m f)
  then show ?thesis
    using t by (auto simp add: handler_try_def m f positive_number_def field_of_def)
qed

text \<open>
  A \<open>POST\<close> whose body is \<open>undefined\<close> or \<open>null\<close>: the destructuring of \<open>req.body\<close>
  throws inside the \<open>try\<close> block, and the answer is 500.
\<close>

lemma handler_nullish_body:
  "status (handler \<lparr>req_method = ''POST'', req_body = JUndefined\<rparr> now) = 500"
  "status (handler \<lparr>req_method = ''POST'', req_body = JNull\<rparr> now) = 500"
  by (simp_all add: handler_def handler_try_def)

text \<open>
  Claim C3, as amended. An \<open>OPTIONS\<close> request is answered 200 with no payload; every
  request whose method is neither \<open>POST\<close> nor \<open>OPTIONS\<close> is answered 405. A \<open>POST\<close>
  whose body is neither \<open>undefined\<close> nor \<open>null\<close> is answered 400 with
  \<open>{success: false, error}\<close> whenever one of \<open>length_mm\<close>, \<open>width_mm\<close>, \<open>height_mm\<close> is
  missing, not a number or not strictly positive; a \<open>POST\<close> with a valid positive triple
  is answered 200 with \<open>success: true\<close> and the result of \<open>recommendLocker\<close> for the same
  three numbers.
\<close>

theorem handler_statuses:
  "(req_method req = ''OPTIONS'' \<longrightarrow>
      status (handler req now) = 200 \<and> payload (handler req now) = No_payload)
   \<and> (req_method req \<noteq> ''OPTIONS'' \<and> req_method req \<noteq> ''POST'' \<longrightarrow>
      status (handler req now) = 405)
   \<and> (req_method req = ''POST'' \<and> req_body req \<noteq> JUndefined \<and> req_body req \<noteq> JNull
        \<and> \<not> valid_triple (req_body req) \<longrightarrow>
      status (handler req now) = 400 \<and> (\<exists>msg. payload (handler req now) = Failure msg))
   \<and> (req_method req = ''POST'' \<and> valid_triple (req_body req) \<longrightarrow>
      status (handler req now) = 200
      \<and> payload (handler req now) =
          Success (recommendLocker_api (num_of (field_of (req_body req) ''length_mm''))
            (num_of (field_of (req_body req) ''width_mm''))
            (num_of (field_of (req_body req) ''height_mm''))) now)"
proof (intro conjI impI)
  assume a: "req_method req = ''POST'' \<and> req_body req \<noteq> JUndefined \<and> req_body req \<noteq> JNull
        \<and> \<not> valid_triple (req_body req)"
  then obtain msg where "handler_try req now =
      Inr \<lparr>headers = cors_headers, status = 400, payload = Failure msg\<rparr>"
    using handler_try_invalid [of req now] by blast
  then show "status (handler req now) = 400" "\<exists>msg. payload (handler req now) = Failure msg"
    using a by (simp_all add: handler_def)
next
  assume a: "req_method req = ''POST'' \<and> valid_triple (req_body req)"
  then have t: "handler_try req now = Inr \<lparr>headers = cors_headers, status = 200,
     payload = Success (recommendLocker_api (num_of (field_of (req_body req) ''length_mm''))
        (num_of (field_of (req_body req) ''width_mm''))
        (num_of (field_of (req_body req) ''height_mm''))) now\<rparr>"
    using handler_try_valid [of req now] by blast
  show "status (handler req now) = 200"
    using a t by (simp add: handler_def)
  show "payload (handler req now) =
          Success (recommendLocker_api (num_of (field_of (req_body req) ''length_mm''))
            (num_of (field_of (req_body req) ''width_mm''))
            (num_of (field_of (req_body req) ''height_mm''))) now"
    using a t by (simp add: handler_def)
qed (simp_all add: handler_def)

text \<open>
  The theorem at four requests: a valid \<open>POST\<close> (250 by 180 by 95.8), a \<open>POST\<close> with a
  negative length, a \<open>POST\<close> with no \<open>width_mm\<close>, and a \<open>GET\<close>.
\<close>

theorem handler_statuses_witness:
  "status (handler \<lparr>req_method = ''POST'', req_body = JObj [(''measurements'',
       JObj [(''length_mm'', JNum 250), (''width_mm'', JNum 180),
             (''height_mm'', JNum (958 / 10))])]\<rparr> ''t'') = 200
   \<and> payload (handler \<lparr>req_method = ''POST'', req_body = JObj [(''measurements'',
       JObj [(''length_mm'', JNum 250), (''width_mm'', JNum 180),
             (''height_mm'', JNum (958 / 10))])]\<rparr> ''t'')
     = Success (recommendLocker_api 250 180 (958 / 10)) ''t''
   \<and> status (handler \<lparr>req_method = ''POST'', req_body = JObj [(''measurements'',
       JObj [(''length_mm'', JNum (- 1)), (''width_mm'', JNum 180),
             (''height_mm'', JNum 50)])]\<rparr> ''t'') = 400
   \<and> status (handler \<lparr>req_method = ''POST'', req_body = JObj [(''measurements'',
       JObj [(''length_mm'', JNum 250), (''height_mm'', JNum 50)])]\<rparr> ''t'') = 400
   \<and> status (handler \<lparr>req_method = ''GET'', req_body = JUndefined\<rparr> ''t'') = 405"
  using handler_statuses [of "\<lparr>req_method = ''POST'', req_body = JObj [(''measurements'',
       JObj [(''length_mm'', JNum 250), (''width_mm'', JNum 180),
             (''height_mm'', JNum (958 / 10))])]\<rparr>" "''t''"]
    handler_statuses [of "\<lparr>req_method = ''POST'', req_body = JObj [(''measurements'',
       JObj [(''length_mm'', JNum (- 1)), (''width_mm'', JNum 180),
             (''height_mm'', JNum 50)])]\<rparr>" "''t''"]
    handler_statuses [of "\<lparr>req_method = ''POST'', req_body = JObj [(''measurements'',
       JObj [(''length_mm'', JNum 250), (''height_mm'', JNum 50)])]\<rparr>" "''t''"]
    handler_statuses [of "\<lparr>req_method = ''GET'', req_body = JUndefined\<rparr>" "''t''"]
  by (simp add: valid_triple_def field_of_def positive_number_def)

text \<open>
  The claim as it was stated fails at an \<open>OPTIONS\<close> request: its method is not \<open>POST\<close>,
  and the answer is 200, not 405.
\<close>

theorem handler_options_counterexample:
  "req_method \<lparr>req_method = ''OPTIONS'', req_body = JUndefined\<rparr> \<noteq> ''POST''
   \<and> status (handler \<lparr>req_method = ''OPTIONS'', req_body = JUndefined\<rparr> ''t'') \<noteq> 405
   \<and> status (handler \<lparr>req_method = ''OPTIONS'', req_body = JUndefined\<rparr> ''t'') = 200"
  by (simp add: handler_def)

end
